theory Spec2Isabelle
  imports Complex_Main "HOL-Library.Sublist"
begin

section \<open>WarBlog: the link manager and the publish flow\<close>

text \<open>
  A shallow embedding of the plugin class \<open>WarBlog\<close> and of \<open>PasswordModal.submit\<close>
  (the first, current copy of the plugin source). Every effect of the source is explicit:
  the Node filesystem is a map from paths to nodes that the link functions take and
  return, user notices, console output, vault reads and calls of the git client are
  logged as events in program order, and a thrown JavaScript value is the completion
  \<open>Throw\<close>. The collaborators the plugin only calls (the vault listing, gray-matter, the
  JavaScript date parser, zod's message texts, the git client, the clock) are fields of
  the records \<open>host\<close> and \<open>git_client\<close>, so every theorem holds for each behaviour they
  may have.
\<close>

subsection \<open>Data\<close>

text \<open>\<open>interface Settings\<close> and \<open>DEFAULT_SETTINGS\<close>.\<close>

record settings =
  astroRoot :: string
  contentFolder :: string
  symlinkName :: string
  password :: string

definition DEFAULT_SETTINGS :: settings where
  "DEFAULT_SETTINGS =
     \<lparr>astroRoot = '''', contentFolder = ''src/content/blog'',
      symlinkName = ''Blog'', password = ''''\<rparr>"

text \<open>
  \<open>this.app.vault.adapter\<close>: a \<open>FileSystemAdapter\<close> carries the vault's base path
  (\<open>getBasePath()\<close>); any other adapter has none.
\<close>

datatype adapter = FileSystemAdapter string | OtherAdapter

text \<open>A zod issue, as the plugin reads it: \<open>i.path\<close> and \<open>i.message\<close>.\<close>

record issue =
  issue_path :: "string list"
  issue_message :: string

text \<open>Thrown values: a plain \<open>Error\<close> with its message, or a \<open>z.ZodError\<close> with its issues.\<close>

datatype exn = Error string | ZodError "issue list"

datatype 'a completion = Return 'a | Throw exn

text \<open>
  The observable actions, in program order. \<open>Notice\<close> is \<open>new Notice(text)\<close> (the display
  time of the validation notice is not modelled), \<open>ConsoleError\<close> is \<open>console.error(err)\<close>,
  \<open>ModalClose\<close> is \<open>this.close()\<close>, \<open>VaultRead\<close> is \<open>vault.adapter.read(path)\<close>, and the
  four \<open>Git\<close> events are the calls of the simple-git client; \<open>GitCommit\<close> carries the
  message and the option keys.
\<close>

datatype event =
    Notice string
  | ConsoleError exn
  | ModalClose
  | VaultRead string
  | GitAdd string
  | GitStatus
  | GitCommit string "string list"
  | GitPush

fun is_vcs :: "event \<Rightarrow> bool" where
  "is_vcs (GitAdd _) = True"
| "is_vcs GitStatus = True"
| "is_vcs (GitCommit _ _) = True"
| "is_vcs GitPush = True"
| "is_vcs _ = False"

definition vcs_ops :: "event list \<Rightarrow> event list" where
  "vcs_ops evs = filter is_vcs evs"

subsection \<open>The Node filesystem\<close>

text \<open>
  What \<open>existsSync\<close>, \<open>lstatSync\<close>, \<open>readlinkSync\<close>, \<open>fs.unlink\<close> and \<open>fs.symlink\<close> see
  and change: each path holds nothing, a regular file, a directory, or a symbolic link
  with the path it was created with. Paths are absolute and compared as strings.
\<close>

datatype node = RegularFile | Directory | SymbolicLink string

type_synonym filesystem = "string \<Rightarrow> node option"

text \<open>
  \<open>existsSync\<close> asks whether the path can be reached, following symbolic links (it is
  \<open>stat\<close>, not \<open>lstat\<close>): a link whose target is missing does not exist for it. The
  kernel follows at most \<open>MAXSYMLINKS\<close> links and fails with \<open>ELOOP\<close> beyond.
\<close>

fun follow :: "nat \<Rightarrow> filesystem \<Rightarrow> string \<Rightarrow> bool" where
  "follow 0 fs p =
     (case fs p of None \<Rightarrow> False | Some (SymbolicLink t) \<Rightarrow> False | Some _ \<Rightarrow> True)"
| "follow (Suc n) fs p =
     (case fs p of None \<Rightarrow> False | Some (SymbolicLink t) \<Rightarrow> follow n fs t | Some _ \<Rightarrow> True)"

definition MAXSYMLINKS :: nat where
  "MAXSYMLINKS = 40"

definition existsSync :: "filesystem \<Rightarrow> string \<Rightarrow> bool" where
  "existsSync fs p = follow MAXSYMLINKS fs p"

text \<open>\<open>lstatSync\<close> does not follow links; it throws on a missing path.\<close>

definition lstatSync :: "filesystem \<Rightarrow> string \<Rightarrow> exn + node" where
  "lstatSync fs p = (case fs p of None \<Rightarrow> Inl (Error ''ENOENT'') | Some n \<Rightarrow> Inr n)"

fun isSymbolicLink :: "node \<Rightarrow> bool" where
  "isSymbolicLink (SymbolicLink _) = True"
| "isSymbolicLink _ = False"

definition readlinkSync :: "filesystem \<Rightarrow> string \<Rightarrow> exn + string" where
  "readlinkSync fs p =
     (case fs p of
        None \<Rightarrow> Inl (Error ''ENOENT'')
      | Some (SymbolicLink t) \<Rightarrow> Inr t
      | Some _ \<Rightarrow> Inl (Error ''EINVAL''))"

text \<open>\<open>fs.unlink\<close> removes a file or a link, never a directory.\<close>

definition unlink :: "filesystem \<Rightarrow> string \<Rightarrow> exn + filesystem" where
  "unlink fs p =
     (case fs p of
        None \<Rightarrow> Inl (Error ''ENOENT'')
      | Some Directory \<Rightarrow> Inl (Error ''EPERM'')
      | Some _ \<Rightarrow> Inr (fs(p := None)))"

text \<open>\<open>fs.symlink(target, path)\<close> fails when anything, a dangling link included, is at \<open>path\<close>.\<close>

definition symlink :: "filesystem \<Rightarrow> string \<Rightarrow> string \<Rightarrow> exn + filesystem" where
  "symlink fs target p =
     (case fs p of
        Some _ \<Rightarrow> Inl (Error ''EEXIST'')
      | None \<Rightarrow> Inr (fs(p \<mapsto> SymbolicLink target)))"

text \<open>
  \<open>path.join\<close> on two segments: empty segments are dropped, and two empty segments give
  \<open>.\<close>. Node also normalises the joined path (doubled or trailing separators, \<open>.\<close> and
  \<open>..\<close> parts); that step is left out, so the model is \<open>path.join\<close> on segments that
  are already normal. No proof below unfolds it but the evaluations at such paths.
\<close>

definition path_join :: "string \<Rightarrow> string \<Rightarrow> string" where
  "path_join a b =
     (if a = [] \<and> b = [] then ''.''
      else if a = [] then b else if b = [] then a else a @ ''/'' @ b)"

subsection \<open>The plugin\<close>

text \<open>\<open>status.modified\<close>, \<open>status.created\<close> and \<open>status.deleted\<close> of simple-git's status.\<close>

record StatusResult =
  modified :: "string list"
  created :: "string list"
  deleted :: "string list"

text \<open>
  The simple-git client, an opaque collaborator: what each of its four calls does when
  the flow makes it. \<open>Some e\<close> (or \<open>Inl e\<close>) is a rejected promise.
\<close>

record git_client =
  git_add :: "string \<Rightarrow> exn option"
  git_status :: "exn + StatusResult"
  git_commit :: "string \<Rightarrow> exn option"
  git_push :: "exn option"

text \<open>\<open>class WarBlog\<close>: its settings, the vault adapter, and \<open>this.git\<close>, unset until a project root is configured.\<close>

record plugin =
  settings :: settings
  adapter :: adapter
  git :: "git_client option"

definition linkPath :: "string \<Rightarrow> plugin \<Rightarrow> string" where
  "linkPath vaultRoot pl = path_join vaultRoot (symlinkName (settings pl))"

definition targetPath :: "plugin \<Rightarrow> string" where
  "targetPath pl = path_join (astroRoot (settings pl)) (contentFolder (settings pl))"

text \<open>The \<open>try\<close>/\<open>catch\<close> around \<open>fs.symlink\<close> at the end of \<open>setupSymlink\<close>.\<close>

definition create_link ::
  "filesystem \<Rightarrow> string \<Rightarrow> string \<Rightarrow> filesystem \<times> event list \<times> unit completion" where
  "create_link fs target p =
     (case symlink fs target p of
        Inr fs' \<Rightarrow> (fs', [Notice ''Blog linked successfully''], Return ())
      | Inl err \<Rightarrow> (fs, [Notice ''Failed to create link'', ConsoleError err], Return ()))"

definition setupSymlink ::
  "plugin \<Rightarrow> filesystem \<Rightarrow> filesystem \<times> event list \<times> unit completion" where
  "setupSymlink pl fs =
     (case adapter pl of
        OtherAdapter \<Rightarrow> (fs, [], Return ())
      | FileSystemAdapter vaultRoot \<Rightarrow>
          if \<not> existsSync fs (targetPath pl) then
            (fs, [Notice ''Blog folder not found''], Return ())
          else if existsSync fs (linkPath vaultRoot pl) then
            (case lstatSync fs (linkPath vaultRoot pl) of
               Inl err \<Rightarrow> (fs, [], Throw err)
             | Inr stats \<Rightarrow>
                 if isSymbolicLink stats then
                   (case readlinkSync fs (linkPath vaultRoot pl) of
                      Inl err \<Rightarrow> (fs, [], Throw err)
                    | Inr t \<Rightarrow>
                        if t = targetPath pl then (fs, [], Return ())
                        else
                          (case unlink fs (linkPath vaultRoot pl) of
                             Inl err \<Rightarrow> (fs, [], Throw err)
                           | Inr fs' \<Rightarrow> create_link fs' (targetPath pl) (linkPath vaultRoot pl)))
                 else
                   (fs,
                    [Notice (''Folder \"'' @ symlinkName (settings pl) @ ''\" already exists'')],
                    Return ()))
          else create_link fs (targetPath pl) (linkPath vaultRoot pl))"

definition removeSymlink ::
  "plugin \<Rightarrow> filesystem \<Rightarrow> filesystem \<times> event list \<times> unit completion" where
  "removeSymlink pl fs =
     (case adapter pl of
        OtherAdapter \<Rightarrow> (fs, [], Return ())
      | FileSystemAdapter vaultRoot \<Rightarrow>
          if existsSync fs (linkPath vaultRoot pl) then
            (case lstatSync fs (linkPath vaultRoot pl) of
               Inl err \<Rightarrow> (fs, [], Throw err)
             | Inr stats \<Rightarrow>
                 if isSymbolicLink stats then
                   (case unlink fs (linkPath vaultRoot pl) of
                      Inl err \<Rightarrow> (fs, [], Throw err)
                    | Inr fs' \<Rightarrow> (fs', [], Return ()))
                 else (fs, [], Return ()))
          else (fs, [], Return ()))"

subsection \<open>Frontmatter validation\<close>

text \<open>
  The values gray-matter's YAML parser puts into \<open>data\<close>. A key that is absent reads as
  \<open>undefined\<close>: \<open>data\<close> is a map, and \<open>None\<close> is \<open>undefined\<close>.
\<close>

datatype jsval = JNull | JString string | JNumber real | JBoolean bool | JDate | JOther

text \<open>The zod schemas \<open>BlogSchema\<close> is built from.\<close>

datatype zschema = z_string | z_coerce_date | z_boolean | z_optional zschema

text \<open>\<open>TFile\<close>: the two fields the plugin reads.\<close>

record tfile =
  path :: string
  name :: string

text \<open>
  The collaborators of the publish flow: the vault's markdown listing and file reader,
  gray-matter (\<open>matter(content).data\<close>, or the parser's exception), whether
  \<open>new Date(v)\<close> is a valid date for a value \<open>v\<close> that is present, the texts zod gives an
  issue and a \<open>ZodError\<close>, and \<open>new Date().toLocaleString()\<close>.
\<close>

record host =
  getMarkdownFiles :: "tfile list"
  read :: "string \<Rightarrow> exn + string"
  matter :: "string \<Rightarrow> exn + (string \<Rightarrow> jsval option)"
  valid_date :: "jsval \<Rightarrow> bool"
  zod_message :: "zschema \<Rightarrow> jsval option \<Rightarrow> string"
  zod_error_message :: "issue list \<Rightarrow> string"
  toLocaleString :: string

text \<open>
  One schema on one value: \<open>None\<close> when it parses, the issue's message otherwise.
  \<open>z.string()\<close> and \<open>z.boolean()\<close> accept exactly their type; \<open>z.coerce.date()\<close> accepts a
  value whose \<open>new Date(v)\<close> is a valid date, and \<open>new Date(undefined)\<close> is not;
  \<open>.optional()\<close> accepts \<open>undefined\<close> and hands every other value to the inner schema.
\<close>

fun safe_parse :: "host \<Rightarrow> zschema \<Rightarrow> jsval option \<Rightarrow> string option" where
  "safe_parse h z_string v =
     (case v of Some (JString _) \<Rightarrow> None | _ \<Rightarrow> Some (zod_message h z_string v))"
| "safe_parse h z_coerce_date v =
     (if (case v of None \<Rightarrow> False | Some x \<Rightarrow> valid_date h x) then None
      else Some (zod_message h z_coerce_date v))"
| "safe_parse h z_boolean v =
     (case v of Some (JBoolean _) \<Rightarrow> None | _ \<Rightarrow> Some (zod_message h z_boolean v))"
| "safe_parse h (z_optional s) v =
     (case v of None \<Rightarrow> None | Some _ \<Rightarrow> safe_parse h s v)"

definition BlogSchema :: "(string \<times> zschema) list" where
  "BlogSchema =
     [(''title'', z_string),
      (''description'', z_string),
      (''pubDate'', z_coerce_date),
      (''updatedDate'', z_optional z_coerce_date),
      (''heroImage'', z_optional z_string),
      (''published'', z_optional z_boolean)]"

text \<open>The required fields of a shape: those whose schema is not wrapped in \<open>.optional()\<close>.\<close>

definition required_fields :: "(string \<times> zschema) list \<Rightarrow> string list" where
  "required_fields shape =
     map fst (filter (\<lambda>f. case snd f of z_optional _ \<Rightarrow> False | _ \<Rightarrow> True) shape)"

text \<open>
  \<open>z.object(shape)\<close> parses every key of its shape, in order, and collects the issues of
  all of them; keys outside the shape are dropped without an issue.
\<close>

definition field_issues :: "host \<Rightarrow> (string \<Rightarrow> jsval option) \<Rightarrow> string \<times> zschema \<Rightarrow> issue list" where
  "field_issues h data f =
     (case safe_parse h (snd f) (data (fst f)) of
        None \<Rightarrow> []
      | Some m \<Rightarrow> [\<lparr>issue_path = [fst f], issue_message = m\<rparr>])"

definition object_issues ::
  "host \<Rightarrow> (string \<times> zschema) list \<Rightarrow> (string \<Rightarrow> jsval option) \<Rightarrow> issue list" where
  "object_issues h shape data = concat (map (field_issues h data) shape)"

text \<open>\<open>BlogSchema.parse(data)\<close>: returns, or throws a \<open>ZodError\<close> with all issues.\<close>

definition BlogSchema_parse :: "host \<Rightarrow> (string \<Rightarrow> jsval option) \<Rightarrow> exn + unit" where
  "BlogSchema_parse h data =
     (if object_issues h BlogSchema data = [] then Inr ()
      else Inl (ZodError (object_issues h BlogSchema data)))"

text \<open>\<open>Array.prototype.join\<close>.\<close>

fun join :: "string \<Rightarrow> string list \<Rightarrow> string" where
  "join sep [] = []"
| "join sep [x] = x"
| "join sep (x # y # ys) = x @ sep @ join sep (y # ys)"

definition issue_line :: "issue \<Rightarrow> string" where
  "issue_line i = join ''.'' (issue_path i) @ '': '' @ issue_message i"

text \<open>The \<open>try\<close> block of \<open>validateFrontmatter\<close>.\<close>

definition validate_try :: "host \<Rightarrow> string \<Rightarrow> event list \<times> unit completion" where
  "validate_try h filePath =
     (case read h filePath of
        Inl err \<Rightarrow> ([VaultRead filePath], Throw err)
      | Inr content \<Rightarrow>
          (case matter h content of
             Inl err \<Rightarrow> ([VaultRead filePath], Throw err)
           | Inr data \<Rightarrow>
               (case BlogSchema_parse h data of
                  Inl err \<Rightarrow> ([VaultRead filePath], Throw err)
                | Inr _ \<Rightarrow> ([VaultRead filePath], Return ()))))"

text \<open>Its \<open>catch\<close> block: a notice with one line per issue for a \<open>ZodError\<close>, nothing for any other value.\<close>

definition validate_catch :: "exn \<Rightarrow> event list" where
  "validate_catch err =
     (case err of
        ZodError issues \<Rightarrow>
          [Notice (''Validation failed:'' @ [CHR 0x0A] @ join [CHR 0x0A] (map issue_line issues))]
      | Error _ \<Rightarrow> [])"

definition validateFrontmatter :: "host \<Rightarrow> string \<Rightarrow> event list \<times> bool completion" where
  "validateFrontmatter h filePath =
     (case validate_try h filePath of
        (evs, Return _) \<Rightarrow> (evs, Return True)
      | (evs, Throw err) \<Rightarrow> (evs @ validate_catch err, Return False))"

subsection \<open>The publish flow\<close>

text \<open>
  The \<open>for\<close> loop of \<open>updateBlog\<close> over the selected files: \<open>Return True\<close> when the loop
  runs to its end, \<open>Return False\<close> when it leaves \<open>updateBlog\<close> at an invalid file.
\<close>

fun validate_files :: "host \<Rightarrow> tfile list \<Rightarrow> event list \<times> bool completion" where
  "validate_files h [] = ([], Return True)"
| "validate_files h (file # files) =
     (case validateFrontmatter h (path file) of
        (evs, Throw err) \<Rightarrow> (evs, Throw err)
      | (evs, Return valid) \<Rightarrow>
          if \<not> valid then (evs @ [Notice (''Validation failed for '' @ name file)], Return False)
          else
            (case validate_files h files of
               (evs', c) \<Rightarrow> (evs @ evs', c)))"

text \<open>\<open>getMarkdownFiles().filter(f => f.path.startsWith(symlinkName))\<close>.\<close>

definition content_files :: "host \<Rightarrow> plugin \<Rightarrow> tfile list" where
  "content_files h pl =
     filter (\<lambda>f. prefix (symlinkName (settings pl)) (path f)) (getMarkdownFiles h)"

text \<open>The four git calls after the loop, up to the first that throws.\<close>

definition git_steps :: "host \<Rightarrow> plugin \<Rightarrow> git_client \<Rightarrow> event list \<times> unit completion" where
  "git_steps h pl g =
     (case git_add g (contentFolder (settings pl) @ ''/*'') of
        Some err \<Rightarrow> ([GitAdd (contentFolder (settings pl) @ ''/*'')], Throw err)
      | None \<Rightarrow>
          (case git_status g of
             Inl err \<Rightarrow> ([GitAdd (contentFolder (settings pl) @ ''/*''), GitStatus], Throw err)
           | Inr status \<Rightarrow>
               if modified status = [] \<and> created status = [] \<and> deleted status = [] then
                 ([GitAdd (contentFolder (settings pl) @ ''/*''), GitStatus,
                   Notice ''No changes to commit''], Return ())
               else
                 (case git_commit g (''Update blog - '' @ toLocaleString h) of
                    Some err \<Rightarrow>
                      ([GitAdd (contentFolder (settings pl) @ ''/*''), GitStatus,
                        GitCommit (''Update blog - '' @ toLocaleString h) [''--no-gpg-sign'']],
                       Throw err)
                  | None \<Rightarrow>
                      (case git_push g of
                         Some err \<Rightarrow>
                           ([GitAdd (contentFolder (settings pl) @ ''/*''), GitStatus,
                             GitCommit (''Update blog - '' @ toLocaleString h) [''--no-gpg-sign''],
                             GitPush], Throw err)
                       | None \<Rightarrow>
                           ([GitAdd (contentFolder (settings pl) @ ''/*''), GitStatus,
                             GitCommit (''Update blog - '' @ toLocaleString h) [''--no-gpg-sign''],
                             GitPush, Notice ''Blog updated successfully''], Return ())))))"

text \<open>The \<open>try\<close> block of \<open>updateBlog\<close>.\<close>

definition update_try :: "host \<Rightarrow> plugin \<Rightarrow> git_client \<Rightarrow> event list \<times> unit completion" where
  "update_try h pl g =
     (case validate_files h (content_files h pl) of
        (evs, Throw err) \<Rightarrow> (Notice ''Updating blog...'' # evs, Throw err)
      | (evs, Return ok) \<Rightarrow>
          if \<not> ok then (Notice ''Updating blog...'' # evs, Return ())
          else
            (case git_steps h pl g of
               (evs', c) \<Rightarrow> (Notice ''Updating blog...'' # evs @ evs', c)))"

text \<open>\<open>(err as Error).message\<close>.\<close>

definition exn_message :: "host \<Rightarrow> exn \<Rightarrow> string" where
  "exn_message h err =
     (case err of Error m \<Rightarrow> m | ZodError issues \<Rightarrow> zod_error_message h issues)"

definition updateBlog :: "host \<Rightarrow> plugin \<Rightarrow> event list" where
  "updateBlog h pl =
     (case git pl of
        None \<Rightarrow> [Notice ''Git not configured'']
      | Some g \<Rightarrow>
          (case update_try h pl g of
             (evs, Return _) \<Rightarrow> evs
           | (evs, Throw err) \<Rightarrow>
               evs @ [Notice (''Update failed: '' @ exn_message h err), ConsoleError err]))"

text \<open>\<open>PasswordModal.submit\<close>, on the text typed into the modal.\<close>

definition submit :: "host \<Rightarrow> plugin \<Rightarrow> string \<Rightarrow> event list" where
  "submit h pl typed =
     (if typed = [] then [Notice ''Enter password'']
      else if typed \<noteq> password (settings pl) then [Notice ''Incorrect password'']
      else ModalClose # updateBlog h pl)"

subsection \<open>Example states\<close>

text \<open>
  A vault at \<open>/vault\<close>, an Astro project at \<open>/site\<close> whose posts are in \<open>/site/posts\<close>,
  and the states of the filesystem the link manager may find.
\<close>

definition ex_settings :: settings where
  "ex_settings =
     \<lparr>astroRoot = ''/site'', contentFolder = ''posts'', symlinkName = ''Blog'',
      password = ''hunter2''\<rparr>"

definition ex_plugin :: plugin where
  "ex_plugin = \<lparr>settings = ex_settings, adapter = FileSystemAdapter ''/vault'', git = None\<rparr>"

definition mobile_plugin :: plugin where
  "mobile_plugin = \<lparr>settings = ex_settings, adapter = OtherAdapter, git = None\<rparr>"

definition fs_fresh :: filesystem where
  "fs_fresh = [''/site/posts'' \<mapsto> Directory]"

definition fs_linked :: filesystem where
  "fs_linked = [''/site/posts'' \<mapsto> Directory, ''/vault/Blog'' \<mapsto> SymbolicLink ''/site/posts'']"

definition fs_link_only :: filesystem where
  "fs_link_only = [''/vault/Blog'' \<mapsto> SymbolicLink ''/site/posts'']"

definition fs_stale :: filesystem where
  "fs_stale =
     [''/site/posts'' \<mapsto> Directory, ''/old/posts'' \<mapsto> Directory,
      ''/vault/Blog'' \<mapsto> SymbolicLink ''/old/posts'']"

definition fs_dangling :: filesystem where
  "fs_dangling = [''/site/posts'' \<mapsto> Directory, ''/vault/Blog'' \<mapsto> SymbolicLink ''/old/posts'']"

definition fs_occupied :: filesystem where
  "fs_occupied = [''/site/posts'' \<mapsto> Directory, ''/vault/Blog'' \<mapsto> Directory]"

definition fs_occupied_only :: filesystem where
  "fs_occupied_only = [''/vault/Blog'' \<mapsto> Directory]"



text \<open>
  Two vault files, one under the link and one in a sibling folder whose name extends the
  link's, with what gray-matter reads from each; a host that serves them; a git client
  with nothing to commit.
\<close>

definition hello_md :: tfile where
  "hello_md = \<lparr>path = ''Blog/hello.md'', name = ''hello.md''\<rparr>"

definition draft_md :: tfile where
  "draft_md = \<lparr>path = ''Blog-drafts/x.md'', name = ''x.md''\<rparr>"

definition hello_data :: "string \<Rightarrow> jsval option" where
  "hello_data =
     [''title'' \<mapsto> JString ''Hello'', ''description'' \<mapsto> JString ''First post'',
      ''pubDate'' \<mapsto> JDate]"

definition draft_data :: "string \<Rightarrow> jsval option" where
  "draft_data = [''pubDate'' \<mapsto> JDate, ''published'' \<mapsto> JBoolean False]"

definition ex_host :: host where
  "ex_host =
     \<lparr>getMarkdownFiles = [hello_md, draft_md],
      read = (\<lambda>p. if p = ''Blog/hello.md'' then Inr ''hello''
                  else if p = ''Blog-drafts/x.md'' then Inr ''draft''
                  else if p = ''Blog/broken.md'' then Inr ''broken''
                  else Inl (Error ''ENOENT'')),
      matter = (\<lambda>c. if c = ''hello'' then Inr hello_data
                    else if c = ''draft'' then Inr draft_data
                    else Inl (Error ''YAMLException'')),
      valid_date = (\<lambda>v. case v of JDate \<Rightarrow> True | _ \<Rightarrow> False),
      zod_message = (\<lambda>s v. ''Required''),
      zod_error_message = (\<lambda>issues. ''ZodError''),
      toLocaleString = ''11/3/2026, 1:45:00 PM''\<rparr>"

definition clean_host :: host where
  "clean_host = ex_host\<lparr>getMarkdownFiles := [hello_md]\<rparr>"

definition clean_git :: git_client where
  "clean_git =
     \<lparr>git_add = (\<lambda>glob. None),
      git_status = Inr \<lparr>modified = [], created = [], deleted = []\<rparr>,
      git_commit = (\<lambda>msg. None),
      git_push = None\<rparr>"

definition pub_plugin :: plugin where
  "pub_plugin = ex_plugin\<lparr>git := Some clean_git\<rparr>"

text \<open>
  A file whose front matter has neither title nor description and a publication date
  that is no date, with a host that serves it.
\<close>

definition bad_data :: "string \<Rightarrow> jsval option" where
  "bad_data = [''pubDate'' \<mapsto> JString ''not a date'']"

definition bad_host :: host where
  "bad_host =
     ex_host\<lparr>read := (\<lambda>p. Inr ''bad''), matter := (\<lambda>c. Inr bad_data),
       zod_message := (\<lambda>s v. case v of None \<Rightarrow> ''Required'' | Some _ \<Rightarrow> ''Invalid date'')\<rparr>"

section \<open>The link manager\<close>

lemma follow_mono: "follow n fs p \<Longrightarrow> follow (Suc n) fs p"
proof (induction n arbitrary: p)
  case 0
  then show ?case by (auto split: option.splits node.splits)
next
  case (Suc n)
  show ?case
  proof (cases "fs p")
    case None
    with Suc.prems show ?thesis by simp
  next
    case (Some nd)
    show ?thesis
    proof (cases nd)
      case (SymbolicLink t)
      with Some Suc.prems have "follow n fs t" by simp
      then have "follow (Suc n) fs t" by (rule Suc.IH)
      then show ?thesis using Some SymbolicLink by simp
    qed (use Some in simp_all)
  qed
qed

lemma follow_occupied: "follow n fs p \<Longrightarrow> fs p \<noteq> None"
  by (cases n) (auto split: option.splits node.splits)

lemma existsSync_occupied: "existsSync fs p \<Longrightarrow> fs p \<noteq> None"
  unfolding existsSync_def by (rule follow_occupied)

lemma existsSync_plain: "fs p = Some n \<Longrightarrow> \<not> isSymbolicLink n \<Longrightarrow> existsSync fs p"
  unfolding existsSync_def MAXSYMLINKS_def
  by (cases n) (simp_all add: eval_nat_numeral)

lemma create_link_fs:
  "fst (create_link fs t p) = (if fs p = None then fs(p \<mapsto> SymbolicLink t) else fs)"
  by (auto simp: create_link_def symlink_def split: option.splits)

lemma setupSymlink_fs_cases:
  "fst (setupSymlink pl fs) = fs \<or>
   (\<exists>vaultRoot. adapter pl = FileSystemAdapter vaultRoot \<and>
      fst (setupSymlink pl fs) = fs(linkPath vaultRoot pl \<mapsto> SymbolicLink (targetPath pl)) \<and>
      (\<forall>n. fs (linkPath vaultRoot pl) = Some n \<longrightarrow> isSymbolicLink n))"
  by (auto simp: setupSymlink_def create_link_def symlink_def unlink_def lstatSync_def readlinkSync_def
      split: adapter.splits sum.splits option.splits node.splits if_splits)

lemma setupSymlink_linked_no_change:
  assumes "adapter pl = FileSystemAdapter vaultRoot"
    and "fs (linkPath vaultRoot pl) = Some (SymbolicLink (targetPath pl))"
  shows "fst (setupSymlink pl fs) = fs"
  using assms
  by (auto simp: setupSymlink_def create_link_def symlink_def unlink_def lstatSync_def readlinkSync_def
      split: adapter.splits sum.splits option.splits node.splits if_splits)

lemma setupSymlink_twice: "fst (setupSymlink pl (fst (setupSymlink pl fs))) = fst (setupSymlink pl fs)"
proof -
  consider (same) "fst (setupSymlink pl fs) = fs"
    | (linked) vaultRoot where "adapter pl = FileSystemAdapter vaultRoot"
        "fst (setupSymlink pl fs) = fs(linkPath vaultRoot pl \<mapsto> SymbolicLink (targetPath pl))"
    using setupSymlink_fs_cases[of pl fs] by blast
  then show ?thesis
  proof cases
    case same
    then show ?thesis by simp
  next
    case linked
    show ?thesis
      unfolding linked(2)
      by (rule setupSymlink_linked_no_change[OF linked(1)]) simp
  qed
qed


text \<open>
  In this filesystem \<open>lstatSync\<close>, \<open>readlinkSync\<close> and \<open>fs.unlink\<close> are only reached
  where they succeed, so \<open>setupSymlink\<close> and \<open>removeSymlink\<close> never throw.
\<close>

lemma setupSymlink_returns: "snd (snd (setupSymlink pl fs)) = Return ()"
  by (auto simp: setupSymlink_def create_link_def symlink_def unlink_def lstatSync_def
      readlinkSync_def dest: existsSync_occupied
      split: adapter.splits sum.splits option.splits node.splits)

lemma removeSymlink_returns: "snd (snd (removeSymlink pl fs)) = Return ()"
  by (auto simp: removeSymlink_def unlink_def lstatSync_def dest: existsSync_occupied
      split: adapter.splits sum.splits option.splits node.splits)

lemma follow_numeral:
  "follow (numeral k) fs p =
     (case fs p of None \<Rightarrow> False | Some (SymbolicLink t) \<Rightarrow> follow (pred_numeral k) fs t
      | Some _ \<Rightarrow> True)"
  by (simp add: numeral_eq_Suc)

lemmas link_eval =
  setupSymlink_def removeSymlink_def create_link_def symlink_def unlink_def lstatSync_def
  readlinkSync_def existsSync_def MAXSYMLINKS_def follow_numeral linkPath_def targetPath_def
  path_join_def ex_plugin_def mobile_plugin_def ex_settings_def

lemma ex_paths:
  "linkPath ''/vault'' ex_plugin = ''/vault/Blog''" "targetPath ex_plugin = ''/site/posts''"
  by (simp_all add: linkPath_def targetPath_def path_join_def ex_plugin_def ex_settings_def)

lemma setupSymlink_keeps_plain:
  "fs p = Some n \<Longrightarrow> \<not> isSymbolicLink n \<Longrightarrow> fst (setupSymlink pl fs) p = Some n"
  using setupSymlink_fs_cases[of pl fs] by (auto simp: fun_upd_def)

lemma removeSymlink_fs_cases:
  "fst (removeSymlink pl fs) = fs \<or>
   (\<exists>vaultRoot t. adapter pl = FileSystemAdapter vaultRoot \<and>
      fs (linkPath vaultRoot pl) = Some (SymbolicLink t) \<and>
      fst (removeSymlink pl fs) = fs(linkPath vaultRoot pl := None))"
  by (auto simp: removeSymlink_def unlink_def lstatSync_def
      split: adapter.splits sum.splits option.splits node.splits if_splits)

lemma removeSymlink_keeps_plain:
  "fs p = Some n \<Longrightarrow> \<not> isSymbolicLink n \<Longrightarrow> fst (removeSymlink pl fs) p = Some n"
  using removeSymlink_fs_cases[of pl fs] by (auto simp: fun_upd_def)

lemma setupSymlink_name_conflict:
  assumes "adapter pl = FileSystemAdapter vaultRoot"
    and "fs (linkPath vaultRoot pl) = Some n" and "\<not> isSymbolicLink n"
    and "existsSync fs (targetPath pl)"
  shows "setupSymlink pl fs =
     (fs, [Notice (''Folder \"'' @ symlinkName (settings pl) @ ''\" already exists'')], Return ())"
  using assms existsSync_plain[of fs "linkPath vaultRoot pl" n]
  by (simp add: setupSymlink_def lstatSync_def)

text \<open>
  Claim C2, as the code has it. A regular file or directory, at the link path or anywhere
  else, is still there after \<open>setupSymlink\<close> and after \<open>removeSymlink\<close>; when
  \<open>removeSymlink\<close> changes the filesystem at all, the link path held a symbolic link and
  that link is what it removed. With a \<open>FileSystemAdapter\<close> vault and a regular file or
  directory at the link path, \<open>setupSymlink\<close> changes nothing and reports that the folder
  name is taken when \<open>existsSync\<close> finds the target path, and that the blog folder was not
  found when it does not (the check for the target comes first in the code).
\<close>

theorem link_manager_spares_foreign_content:
  "(fs p = Some n \<and> \<not> isSymbolicLink n \<longrightarrow>
      fst (setupSymlink pl fs) p = Some n \<and> fst (removeSymlink pl fs) p = Some n) \<and>
   (fst (removeSymlink pl fs) \<noteq> fs \<longrightarrow>
      (\<exists>vaultRoot t. adapter pl = FileSystemAdapter vaultRoot \<and>
         fs (linkPath vaultRoot pl) = Some (SymbolicLink t) \<and>
         fst (removeSymlink pl fs) = fs(linkPath vaultRoot pl := None))) \<and>
   (adapter pl = FileSystemAdapter vaultRoot \<and> fs (linkPath vaultRoot pl) = Some n \<and>
    \<not> isSymbolicLink n \<and> existsSync fs (targetPath pl) \<longrightarrow>
      setupSymlink pl fs =
        (fs, [Notice (''Folder \"'' @ symlinkName (settings pl) @ ''\" already exists'')],
         Return ())) \<and>
   (adapter pl = FileSystemAdapter vaultRoot \<and> fs (linkPath vaultRoot pl) = Some n \<and>
    \<not> isSymbolicLink n \<and> \<not> existsSync fs (targetPath pl) \<longrightarrow>
      setupSymlink pl fs = (fs, [Notice ''Blog folder not found''], Return ()))"
proof -
  have keep: "fs p = Some n \<and> \<not> isSymbolicLink n \<longrightarrow>
      fst (setupSymlink pl fs) p = Some n \<and> fst (removeSymlink pl fs) p = Some n"
    by (simp add: setupSymlink_keeps_plain removeSymlink_keeps_plain)
  have only_link: "fst (removeSymlink pl fs) \<noteq> fs \<longrightarrow>
      (\<exists>vaultRoot t. adapter pl = FileSystemAdapter vaultRoot \<and>
         fs (linkPath vaultRoot pl) = Some (SymbolicLink t) \<and>
         fst (removeSymlink pl fs) = fs(linkPath vaultRoot pl := None))"
    using removeSymlink_fs_cases[of pl fs] by blast
  have conflict: "adapter pl = FileSystemAdapter vaultRoot \<and> fs (linkPath vaultRoot pl) = Some n \<and>
    \<not> isSymbolicLink n \<and> existsSync fs (targetPath pl) \<longrightarrow>
      setupSymlink pl fs =
        (fs, [Notice (''Folder \"'' @ symlinkName (settings pl) @ ''\" already exists'')],
         Return ())"
    by (simp add: setupSymlink_name_conflict)
  have missing: "adapter pl = FileSystemAdapter vaultRoot \<and> fs (linkPath vaultRoot pl) = Some n \<and>
    \<not> isSymbolicLink n \<and> \<not> existsSync fs (targetPath pl) \<longrightarrow>
      setupSymlink pl fs = (fs, [Notice ''Blog folder not found''], Return ())"
    by (simp add: setupSymlink_def)
  from keep only_link conflict missing show ?thesis by blast
qed

theorem link_manager_spares_foreign_content_witness:
  "fs_occupied ''/vault/Blog'' = Some Directory \<and>
   fst (setupSymlink ex_plugin fs_occupied) ''/vault/Blog'' = Some Directory \<and>
   fst (removeSymlink ex_plugin fs_occupied) ''/vault/Blog'' = Some Directory \<and>
   fst (removeSymlink ex_plugin fs_linked) = fs_fresh \<and>
   fs_linked ''/vault/Blog'' = Some (SymbolicLink ''/site/posts'') \<and>
   setupSymlink ex_plugin fs_occupied =
     (fs_occupied, [Notice ''Folder \"Blog\" already exists''], Return ()) \<and>
   fs_occupied_only ''/vault/Blog'' = Some Directory \<and>
   \<not> existsSync fs_occupied_only (targetPath ex_plugin) \<and>
   setupSymlink ex_plugin fs_occupied_only =
     (fs_occupied_only, [Notice ''Blog folder not found''], Return ())"
proof -
  have occ: "fs_occupied ''/vault/Blog'' = Some Directory"
    by (simp add: fs_occupied_def)
  have tgt: "existsSync fs_occupied (targetPath ex_plugin)"
    by (simp add: fs_occupied_def link_eval)
  have rm: "fst (removeSymlink ex_plugin fs_linked) = fs_fresh"
    by (simp add: fs_linked_def fs_fresh_def link_eval)
  have lnk: "fs_linked ''/vault/Blog'' = Some (SymbolicLink ''/site/posts'')"
    by (simp add: fs_linked_def)
  have ad: "adapter ex_plugin = FileSystemAdapter ''/vault''"
    by (simp add: ex_plugin_def)
  have nm: "symlinkName (settings ex_plugin) = ''Blog''"
    by (simp add: ex_plugin_def ex_settings_def)
  have occ2: "fs_occupied_only ''/vault/Blog'' = Some Directory"
    by (simp add: fs_occupied_only_def)
  have miss: "\<not> existsSync fs_occupied_only (targetPath ex_plugin)"
    by (simp add: fs_occupied_only_def link_eval)
  note th = link_manager_spares_foreign_content
    [of fs_occupied "''/vault/Blog''" Directory ex_plugin "''/vault''"]
  from th occ tgt ad
  have first: "fst (setupSymlink ex_plugin fs_occupied) ''/vault/Blog'' = Some Directory \<and>
      fst (removeSymlink ex_plugin fs_occupied) ''/vault/Blog'' = Some Directory \<and>
      setupSymlink ex_plugin fs_occupied =
        (fs_occupied, [Notice ''Folder \"Blog\" already exists''], Return ())"
    by (simp add: ex_paths nm)
  note th2 = link_manager_spares_foreign_content
    [of fs_occupied_only "''/vault/Blog''" Directory ex_plugin "''/vault''"]
  from th2 occ2 miss ad
  have second: "setupSymlink ex_plugin fs_occupied_only =
      (fs_occupied_only, [Notice ''Blog folder not found''], Return ())"
    by (simp add: ex_paths)
  from occ first rm lnk occ2 miss second show ?thesis by blast
qed

text \<open>
  C2 as stated fails where nothing is at the target path: a directory occupies the link
  path, and the report is that the blog folder was not found.
\<close>

theorem setupSymlink_conflict_counterexample:
  "fs_occupied_only (linkPath ''/vault'' ex_plugin) = Some Directory \<and>
   setupSymlink ex_plugin fs_occupied_only =
     (fs_occupied_only, [Notice ''Blog folder not found''], Return ())"
  by (simp add: fs_occupied_only_def link_eval)


lemma existsSync_link:
  "fs p = Some (SymbolicLink t) \<Longrightarrow> existsSync fs p \<Longrightarrow> existsSync fs t"
  unfolding existsSync_def MAXSYMLINKS_def
  using follow_mono[of 39 fs t] by (simp add: follow_numeral)

lemma setupSymlink_linked:
  assumes "adapter pl = FileSystemAdapter vaultRoot"
    and "fs (linkPath vaultRoot pl) = Some (SymbolicLink (targetPath pl))"
    and "existsSync fs (linkPath vaultRoot pl)"
  shows "setupSymlink pl fs = (fs, [], Return ())"
  using assms existsSync_link[OF assms(2,3)]
  by (simp add: setupSymlink_def lstatSync_def readlinkSync_def)

text \<open>
  Claim C4, as the code has it. With a \<open>FileSystemAdapter\<close> vault, where the link path
  holds a symbolic link to exactly the current target: when that link resolves
  (\<open>existsSync\<close> finds the link path) \<open>setupSymlink\<close> changes nothing, shows no notice and
  returns normally; when \<open>existsSync\<close> does not find the target path it changes nothing
  and reports that the blog folder was not found. For every state and adapter, a second
  call right after a first one leaves the filesystem the first call produced untouched.
\<close>

theorem setupSymlink_idempotent:
  "(adapter pl = FileSystemAdapter vaultRoot \<and>
    fs (linkPath vaultRoot pl) = Some (SymbolicLink (targetPath pl)) \<and>
    existsSync fs (linkPath vaultRoot pl) \<longrightarrow>
      setupSymlink pl fs = (fs, [], Return ())) \<and>
   (adapter pl = FileSystemAdapter vaultRoot \<and>
    fs (linkPath vaultRoot pl) = Some (SymbolicLink (targetPath pl)) \<and>
    \<not> existsSync fs (targetPath pl) \<longrightarrow>
      setupSymlink pl fs = (fs, [Notice ''Blog folder not found''], Return ())) \<and>
   fst (setupSymlink pl (fst (setupSymlink pl fs))) = fst (setupSymlink pl fs)"
proof -
  have noop: "adapter pl = FileSystemAdapter vaultRoot \<and>
    fs (linkPath vaultRoot pl) = Some (SymbolicLink (targetPath pl)) \<and>
    existsSync fs (linkPath vaultRoot pl) \<longrightarrow>
      setupSymlink pl fs = (fs, [], Return ())"
    by (simp add: setupSymlink_linked)
  have missing: "adapter pl = FileSystemAdapter vaultRoot \<and>
    fs (linkPath vaultRoot pl) = Some (SymbolicLink (targetPath pl)) \<and>
    \<not> existsSync fs (targetPath pl) \<longrightarrow>
      setupSymlink pl fs = (fs, [Notice ''Blog folder not found''], Return ())"
    by (simp add: setupSymlink_def)
  have twice: "fst (setupSymlink pl (fst (setupSymlink pl fs))) = fst (setupSymlink pl fs)"
    by (rule setupSymlink_twice)
  from noop missing twice show ?thesis by blast
qed

theorem setupSymlink_idempotent_witness:
  "fs_linked (linkPath ''/vault'' ex_plugin) = Some (SymbolicLink (targetPath ex_plugin)) \<and>
   existsSync fs_linked (linkPath ''/vault'' ex_plugin) \<and>
   setupSymlink ex_plugin fs_linked = (fs_linked, [], Return ()) \<and>
   fs_link_only (linkPath ''/vault'' ex_plugin) = Some (SymbolicLink (targetPath ex_plugin)) \<and>
   \<not> existsSync fs_link_only (targetPath ex_plugin) \<and>
   setupSymlink ex_plugin fs_link_only =
     (fs_link_only, [Notice ''Blog folder not found''], Return ()) \<and>
   setupSymlink ex_plugin fs_fresh = (fs_linked, [Notice ''Blog linked successfully''], Return ()) \<and>
   fst (setupSymlink ex_plugin (fst (setupSymlink ex_plugin fs_fresh))) = fs_linked"
proof -
  have lnk: "fs_linked (linkPath ''/vault'' ex_plugin) = Some (SymbolicLink (targetPath ex_plugin))"
    by (simp add: fs_linked_def ex_paths)
  have ex: "existsSync fs_linked (linkPath ''/vault'' ex_plugin)"
    by (simp add: fs_linked_def link_eval)
  have lnk2: "fs_link_only (linkPath ''/vault'' ex_plugin) =
      Some (SymbolicLink (targetPath ex_plugin))"
    by (simp add: fs_link_only_def ex_paths)
  have miss: "\<not> existsSync fs_link_only (targetPath ex_plugin)"
    by (simp add: fs_link_only_def link_eval)
  have ad: "adapter ex_plugin = FileSystemAdapter ''/vault''"
    by (simp add: ex_plugin_def)
  have first: "setupSymlink ex_plugin fs_fresh =
      (fs_linked, [Notice ''Blog linked successfully''], Return ())"
    by (simp add: fs_fresh_def fs_linked_def link_eval)
  from setupSymlink_idempotent[of ex_plugin "''/vault''" fs_linked] lnk ex ad
  have one: "setupSymlink ex_plugin fs_linked = (fs_linked, [], Return ())"
    by blast
  from setupSymlink_idempotent[of ex_plugin "''/vault''" fs_link_only] lnk2 miss ad
  have gone: "setupSymlink ex_plugin fs_link_only =
      (fs_link_only, [Notice ''Blog folder not found''], Return ())"
    by blast
  from setupSymlink_idempotent[of ex_plugin "''/vault''" fs_fresh]
  have two: "fst (setupSymlink ex_plugin (fst (setupSymlink ex_plugin fs_fresh))) = fs_linked"
    by (simp add: first)
  from lnk ex one lnk2 miss gone first two show ?thesis by blast
qed

text \<open>
  C4 as stated fails where the link is in place and its target is gone: the call reports
  that the blog folder was not found. Where the link is in place and resolves, the call
  is silent: the success notice belongs to the creation of a link only.
\<close>

theorem setupSymlink_idempotent_counterexample:
  "fs_link_only (linkPath ''/vault'' ex_plugin) = Some (SymbolicLink (targetPath ex_plugin)) \<and>
   setupSymlink ex_plugin fs_link_only =
     (fs_link_only, [Notice ''Blog folder not found''], Return ()) \<and>
   setupSymlink ex_plugin fs_linked = (fs_linked, [], Return ())"
  by (simp add: fs_link_only_def fs_linked_def link_eval)

text \<open>
  A stale link that still resolves is removed and replaced by a link to the current
  target.
\<close>

lemma setupSymlink_replaces_live_link:
  assumes "adapter pl = FileSystemAdapter vaultRoot"
    and "fs (linkPath vaultRoot pl) = Some (SymbolicLink t)" and "t \<noteq> targetPath pl"
    and "existsSync fs (targetPath pl)" and "existsSync fs (linkPath vaultRoot pl)"
  shows "setupSymlink pl fs =
     (fs(linkPath vaultRoot pl \<mapsto> SymbolicLink (targetPath pl)),
      [Notice ''Blog linked successfully''], Return ())"
  using assms
  by (simp add: setupSymlink_def lstatSync_def readlinkSync_def unlink_def create_link_def
      symlink_def)

text \<open>
  Claim C7 at a stale link whose old target is gone: \<open>existsSync\<close> follows the link and
  answers false, so neither \<open>setupSymlink\<close> nor \<open>removeSymlink\<close> removes it, and
  \<open>fs.symlink\<close> fails on the occupied path. The stale link stays.
\<close>

theorem setupSymlink_dangling_stale_link:
  "fs_dangling (linkPath ''/vault'' ex_plugin) = Some (SymbolicLink ''/old/posts'') \<and>
   ''/old/posts'' \<noteq> targetPath ex_plugin \<and>
   existsSync fs_dangling (targetPath ex_plugin) \<and>
   setupSymlink ex_plugin fs_dangling =
     (fs_dangling, [Notice ''Failed to create link'', ConsoleError (Error ''EEXIST'')], Return ()) \<and>
   removeSymlink ex_plugin fs_dangling = (fs_dangling, [], Return ())"
  by (simp add: fs_dangling_def link_eval)

lemma setupSymlink_live_stale_link_example:
  "setupSymlink ex_plugin fs_stale =
     (fs_stale(''/vault/Blog'' \<mapsto> SymbolicLink ''/site/posts''),
      [Notice ''Blog linked successfully''], Return ())"
  by (simp add: fs_stale_def link_eval)





section \<open>The publish flow\<close>

lemma validate_try_cases:
  "\<exists>c. validate_try h p = ([VaultRead p], c)"
  by (auto simp: validate_try_def split: sum.splits)

lemma validate_catch_no_vcs: "vcs_ops (validate_catch err) = []"
  by (cases err) (simp_all add: validate_catch_def vcs_ops_def)

lemma validateFrontmatter_returns:
  "\<exists>evs b. validateFrontmatter h p = (evs, Return b) \<and> vcs_ops evs = []"
proof -
  obtain c where c: "validate_try h p = ([VaultRead p], c)"
    using validate_try_cases by blast
  show ?thesis
    using validate_catch_no_vcs
    by (cases c) (auto simp: validateFrontmatter_def c vcs_ops_def)
qed

lemma validate_files_returns:
  "\<exists>evs. validate_files h files =
      (evs, Return (list_all (\<lambda>f. snd (validateFrontmatter h (path f)) = Return True) files)) \<and>
     vcs_ops evs = []"
proof (induction files)
  case Nil
  show ?case by (simp add: vcs_ops_def)
next
  case (Cons f0 rest)
  obtain evs b where v: "validateFrontmatter h (path f0) = (evs, Return b)" "vcs_ops evs = []"
    using validateFrontmatter_returns by blast
  obtain evs' where r: "validate_files h rest =
      (evs', Return (list_all (\<lambda>f. snd (validateFrontmatter h (path f)) = Return True) rest))"
      "vcs_ops evs' = []"
    using Cons.IH by blast
  show ?case
    using v r by (cases b) (simp_all add: vcs_ops_def)
qed

lemma update_try_invalid:
  assumes "\<not> list_all (\<lambda>f. snd (validateFrontmatter h (path f)) = Return True) (content_files h pl)"
  shows "\<exists>evs. update_try h pl g = (Notice ''Updating blog...'' # evs, Return ()) \<and> vcs_ops evs = []"
proof -
  obtain evs where r: "validate_files h (content_files h pl) =
      (evs, Return (list_all (\<lambda>f. snd (validateFrontmatter h (path f)) = Return True)
         (content_files h pl)))" "vcs_ops evs = []"
    using validate_files_returns by blast
  with assms show ?thesis by (simp add: update_try_def)
qed

lemma updateBlog_invalid_no_vcs:
  assumes "f \<in> set (content_files h pl)"
    and "snd (validateFrontmatter h (path f)) \<noteq> Return True"
  shows "vcs_ops (updateBlog h pl) = []"
proof (cases "git pl")
  case None
  then show ?thesis by (simp add: updateBlog_def vcs_ops_def)
next
  case (Some g)
  from assms have "\<not> list_all (\<lambda>f. snd (validateFrontmatter h (path f)) = Return True) (content_files h pl)"
    by (auto simp: list_all_iff)
  then obtain evs where "update_try h pl g = (Notice ''Updating blog...'' # evs, Return ())"
      "vcs_ops evs = []"
    using update_try_invalid by blast
  with Some show ?thesis by (simp add: updateBlog_def vcs_ops_def)
qed


lemmas publish_eval =
  updateBlog_def update_try_def git_steps_def content_files_def
  validateFrontmatter_def validate_try_def validate_catch_def BlogSchema_parse_def
  object_issues_def field_issues_def BlogSchema_def issue_line_def
  ex_host_def clean_host_def clean_git_def pub_plugin_def ex_plugin_def ex_settings_def
  hello_md_def draft_md_def hello_data_def draft_data_def

lemma draft_invalid:
  "validateFrontmatter ex_host ''Blog-drafts/x.md'' =
     ([VaultRead ''Blog-drafts/x.md'',
       Notice (''Validation failed:'' @ [CHR 0x0A] @ ''title: Required'' @ [CHR 0x0A] @
               ''description: Required'')],
      Return False)"
  by (simp add: publish_eval)

lemma hello_valid:
  "validateFrontmatter ex_host ''Blog/hello.md'' = ([VaultRead ''Blog/hello.md''], Return True)"
  by (simp add: publish_eval)

lemma updateBlog_ex_host:
  "updateBlog ex_host pub_plugin =
     [Notice ''Updating blog...'', VaultRead ''Blog/hello.md'', VaultRead ''Blog-drafts/x.md'',
      Notice (''Validation failed:'' @ [CHR 0x0A] @ ''title: Required'' @ [CHR 0x0A] @
               ''description: Required''),
      Notice ''Validation failed for x.md'']"
proof -
  have files: "content_files ex_host pub_plugin = [hello_md, draft_md]"
    by (simp add: content_files_def ex_host_def pub_plugin_def ex_plugin_def ex_settings_def
        hello_md_def draft_md_def)
  have paths: "path hello_md = ''Blog/hello.md''" "path draft_md = ''Blog-drafts/x.md''"
      "name draft_md = ''x.md''"
    by (simp_all add: hello_md_def draft_md_def)
  have g: "git pub_plugin = Some clean_git"
    by (simp add: pub_plugin_def)
  show ?thesis
    by (simp add: updateBlog_def update_try_def files paths g draft_invalid hello_valid)
qed

text \<open>
  Claim C1. When the typed secret passes the check and one of the selected content files
  fails \<open>validateFrontmatter\<close>, the attempt is \<open>updateBlog\<close> after the modal closes
  and it makes no call of the git client: no add, no status, no commit, no push.
\<close>

theorem validation_gate:
  "typed \<noteq> [] \<and> typed = password (settings pl) \<and> f \<in> set (content_files h pl) \<and>
   snd (validateFrontmatter h (path f)) = Return False \<longrightarrow>
     submit h pl typed = ModalClose # updateBlog h pl \<and> vcs_ops (submit h pl typed) = []"
proof (intro impI)
  assume a: "typed \<noteq> [] \<and> typed = password (settings pl) \<and> f \<in> set (content_files h pl) \<and>
   snd (validateFrontmatter h (path f)) = Return False"
  then have "vcs_ops (updateBlog h pl) = []"
    using updateBlog_invalid_no_vcs[of f h pl] by simp
  moreover from a have "submit h pl typed = ModalClose # updateBlog h pl"
    by (auto simp: submit_def)
  ultimately show "submit h pl typed = ModalClose # updateBlog h pl \<and> vcs_ops (submit h pl typed) = []"
    by (simp add: vcs_ops_def)
qed

theorem validation_gate_witness:
  "draft_md \<in> set (content_files ex_host pub_plugin) \<and>
   snd (validateFrontmatter ex_host (path draft_md)) = Return False \<and>
   vcs_ops (submit ex_host pub_plugin ''hunter2'') = []"
proof -
  have f: "draft_md \<in> set (content_files ex_host pub_plugin)"
    by (simp add: content_files_def ex_host_def pub_plugin_def ex_plugin_def ex_settings_def
        hello_md_def draft_md_def)
  have v: "snd (validateFrontmatter ex_host (path draft_md)) = Return False"
    by (simp add: draft_md_def draft_invalid)
  have p: "password (settings pub_plugin) = ''hunter2''"
    by (simp add: pub_plugin_def ex_plugin_def ex_settings_def)
  have hyp: "''hunter2'' \<noteq> [] \<and> ''hunter2'' = password (settings pub_plugin) \<and>
      draft_md \<in> set (content_files ex_host pub_plugin) \<and>
      snd (validateFrontmatter ex_host (path draft_md)) = Return False"
    using f v p by simp
  from validation_gate[of "''hunter2''" pub_plugin draft_md ex_host] hyp
  have "submit ex_host pub_plugin ''hunter2'' = ModalClose # updateBlog ex_host pub_plugin \<and>
      vcs_ops (submit ex_host pub_plugin ''hunter2'') = []"
    by blast
  with f v show ?thesis by blast
qed

lemma update_try_starts:
  "\<exists>evs c. update_try h pl g = (Notice ''Updating blog...'' # evs, c)"
  by (auto simp: update_try_def split: prod.splits completion.splits)

text \<open>
  Claim C3. \<open>submit\<close> closes the modal and runs \<open>updateBlog\<close> exactly when the typed
  secret is not empty and equals the configured password. An empty secret is answered
  with the notice to enter a password whatever the configured password is, a different
  secret with the notice that it is incorrect, and in both cases nothing else happens.
  \<open>updateBlog\<close> always leaves a trace, so its run is visible.
\<close>

theorem secret_gate:
  "(typed \<noteq> [] \<and> typed = password (settings pl) \<longrightarrow>
      submit h pl typed = ModalClose # updateBlog h pl) \<and>
   (typed = [] \<longrightarrow> submit h pl typed = [Notice ''Enter password'']) \<and>
   (typed \<noteq> [] \<and> typed \<noteq> password (settings pl) \<longrightarrow>
      submit h pl typed = [Notice ''Incorrect password'']) \<and>
   (ModalClose \<in> set (submit h pl typed) \<longleftrightarrow> typed \<noteq> [] \<and> typed = password (settings pl)) \<and>
   updateBlog h pl \<noteq> []"
proof -
  have "updateBlog h pl \<noteq> []"
  proof (cases "git pl")
    case None
    then show ?thesis by (simp add: updateBlog_def)
  next
    case (Some g)
    obtain evs c where "update_try h pl g = (Notice ''Updating blog...'' # evs, c)"
      using update_try_starts by blast
    with Some show ?thesis by (cases c) (simp_all add: updateBlog_def)
  qed
  then show ?thesis
    by (auto simp: submit_def)
qed

theorem secret_gate_witness:
  "submit ex_host pub_plugin ''hunter2'' = ModalClose # updateBlog ex_host pub_plugin \<and>
   submit ex_host (pub_plugin\<lparr>settings := DEFAULT_SETTINGS\<rparr>) '''' = [Notice ''Enter password''] \<and>
   password DEFAULT_SETTINGS = '''' \<and>
   submit ex_host pub_plugin ''hunter3'' = [Notice ''Incorrect password'']"
proof -
  have p: "password (settings pub_plugin) = ''hunter2''"
    by (simp add: pub_plugin_def ex_plugin_def ex_settings_def)
  from secret_gate[of "''hunter2''" pub_plugin ex_host] p
  have a: "submit ex_host pub_plugin ''hunter2'' = ModalClose # updateBlog ex_host pub_plugin"
    by simp
  from secret_gate[of "''''" "pub_plugin\<lparr>settings := DEFAULT_SETTINGS\<rparr>" ex_host]
  have b: "submit ex_host (pub_plugin\<lparr>settings := DEFAULT_SETTINGS\<rparr>) '''' = [Notice ''Enter password'']"
    by simp
  from secret_gate[of "''hunter3''" pub_plugin ex_host] p
  have c: "submit ex_host pub_plugin ''hunter3'' = [Notice ''Incorrect password'']"
    by simp
  have d: "password DEFAULT_SETTINGS = ''''" by (simp add: DEFAULT_SETTINGS_def)
  from a b c d show ?thesis by blast
qed

text \<open>
  Claim C5. When the git client is set, every selected file is valid, staging succeeds
  and the status lists no modified, created or deleted file, \<open>updateBlog\<close> ends with
  the notice that there is nothing to commit; its only git calls are the add and the
  status, so neither a commit nor a push is issued, and no failure is reported.
\<close>

theorem no_changes_is_success:
  "git pl = Some g \<and>
   list_all (\<lambda>f. snd (validateFrontmatter h (path f)) = Return True) (content_files h pl) \<and>
   git_add g (contentFolder (settings pl) @ ''/*'') = None \<and> git_status g = Inr status \<and>
   modified status = [] \<and> created status = [] \<and> deleted status = [] \<longrightarrow>
     updateBlog h pl =
       Notice ''Updating blog...'' # fst (validate_files h (content_files h pl)) @
       [GitAdd (contentFolder (settings pl) @ ''/*''), GitStatus, Notice ''No changes to commit''] \<and>
     vcs_ops (updateBlog h pl) = [GitAdd (contentFolder (settings pl) @ ''/*''), GitStatus]"
proof (intro impI)
  assume a: "git pl = Some g \<and>
   list_all (\<lambda>f. snd (validateFrontmatter h (path f)) = Return True) (content_files h pl) \<and>
   git_add g (contentFolder (settings pl) @ ''/*'') = None \<and> git_status g = Inr status \<and>
   modified status = [] \<and> created status = [] \<and> deleted status = []"
  obtain evs where r: "validate_files h (content_files h pl) =
      (evs, Return (list_all (\<lambda>f. snd (validateFrontmatter h (path f)) = Return True)
         (content_files h pl)))" "vcs_ops evs = []"
    using validate_files_returns by blast
  from a have g: "git_steps h pl g =
      ([GitAdd (contentFolder (settings pl) @ ''/*''), GitStatus, Notice ''No changes to commit''],
       Return ())"
    by (simp add: git_steps_def)
  from a r g have u: "updateBlog h pl =
       Notice ''Updating blog...'' # evs @
       [GitAdd (contentFolder (settings pl) @ ''/*''), GitStatus, Notice ''No changes to commit'']"
    by (simp add: updateBlog_def update_try_def)
  with r show "updateBlog h pl =
       Notice ''Updating blog...'' # fst (validate_files h (content_files h pl)) @
       [GitAdd (contentFolder (settings pl) @ ''/*''), GitStatus, Notice ''No changes to commit''] \<and>
     vcs_ops (updateBlog h pl) = [GitAdd (contentFolder (settings pl) @ ''/*''), GitStatus]"
    by (simp add: vcs_ops_def)
qed

theorem no_changes_is_success_witness:
  "list_all (\<lambda>f. snd (validateFrontmatter clean_host (path f)) = Return True)
     (content_files clean_host pub_plugin) \<and>
   updateBlog clean_host pub_plugin =
     [Notice ''Updating blog...'', VaultRead ''Blog/hello.md'', GitAdd ''posts/*'', GitStatus,
      Notice ''No changes to commit''] \<and>
   vcs_ops (updateBlog clean_host pub_plugin) = [GitAdd ''posts/*'', GitStatus]"
proof -
  have v: "list_all (\<lambda>f. snd (validateFrontmatter clean_host (path f)) = Return True)
     (content_files clean_host pub_plugin)"
    by (simp add: publish_eval)
  have l: "fst (validate_files clean_host (content_files clean_host pub_plugin)) =
      [VaultRead ''Blog/hello.md'']"
    by (simp add: publish_eval)
  have g: "git pub_plugin = Some clean_git" "contentFolder (settings pub_plugin) = ''posts''"
    by (simp_all add: pub_plugin_def ex_plugin_def ex_settings_def)
  have s: "git_add clean_git ''posts/*'' = None"
      "git_status clean_git = Inr \<lparr>modified = [], created = [], deleted = []\<rparr>"
    by (simp_all add: clean_git_def)
  have hyp: "git pub_plugin = Some clean_git \<and>
      list_all (\<lambda>f. snd (validateFrontmatter clean_host (path f)) = Return True)
        (content_files clean_host pub_plugin) \<and>
      git_add clean_git (contentFolder (settings pub_plugin) @ ''/*'') = None \<and>
      git_status clean_git = Inr \<lparr>modified = [], created = [], deleted = []\<rparr> \<and>
      modified \<lparr>modified = [], created = [], deleted = []\<rparr> = [] \<and>
      created \<lparr>modified = [], created = [], deleted = []\<rparr> = [] \<and>
      deleted \<lparr>modified = [], created = [], deleted = []\<rparr> = []"
    using v g s by simp
  from no_changes_is_success[of pub_plugin clean_git clean_host
      "\<lparr>modified = [], created = [], deleted = []\<rparr>"] hyp
  have "updateBlog clean_host pub_plugin =
       Notice ''Updating blog...'' # fst (validate_files clean_host (content_files clean_host pub_plugin)) @
       [GitAdd (contentFolder (settings pub_plugin) @ ''/*''), GitStatus,
        Notice ''No changes to commit''] \<and>
     vcs_ops (updateBlog clean_host pub_plugin) =
       [GitAdd (contentFolder (settings pub_plugin) @ ''/*''), GitStatus]"
    by blast
  with v show ?thesis by (simp add: g(2) l vcs_ops_def)
qed



lemma validate_files_invalid_last:
  "\<not> list_all (\<lambda>f. snd (validateFrontmatter h (path f)) = Return True) files \<Longrightarrow>
   \<exists>g evs. g \<in> set files \<and> snd (validateFrontmatter h (path g)) = Return False \<and>
     fst (validate_files h files) = evs @ [Notice (''Validation failed for '' @ name g)]"
proof (induction files)
  case Nil
  then show ?case by simp
next
  case (Cons f0 rest)
  obtain evs b where v: "validateFrontmatter h (path f0) = (evs, Return b)"
    using validateFrontmatter_returns by blast
  show ?case
  proof (cases b)
    case False
    with v have "fst (validate_files h (f0 # rest)) =
        evs @ [Notice (''Validation failed for '' @ name f0)]"
      by simp
    moreover from v False have "snd (validateFrontmatter h (path f0)) = Return False"
      by simp
    ultimately show ?thesis by auto
  next
    case True
    with v Cons.prems
    have "\<not> list_all (\<lambda>f. snd (validateFrontmatter h (path f)) = Return True) rest"
      by simp
    then obtain g evs' where g: "g \<in> set rest"
        "snd (validateFrontmatter h (path g)) = Return False"
        "fst (validate_files h rest) = evs' @ [Notice (''Validation failed for '' @ name g)]"
      using Cons.IH by blast
    obtain es c where rc: "validate_files h rest = (es, c)"
      by (cases "validate_files h rest")
    with g(3) have "es = evs' @ [Notice (''Validation failed for '' @ name g)]"
      by simp
    with v True rc have "fst (validate_files h (f0 # rest)) =
        (evs @ evs') @ [Notice (''Validation failed for '' @ name g)]"
      by simp
    with g(1,2) show ?thesis by (metis list.set_intros(2))
  qed
qed

lemma updateBlog_invalid_last:
  assumes "git pl = Some g0"
    and "\<not> list_all (\<lambda>f. snd (validateFrontmatter h (path f)) = Return True) (content_files h pl)"
  shows "\<exists>g. g \<in> set (content_files h pl) \<and> snd (validateFrontmatter h (path g)) = Return False \<and>
     last (updateBlog h pl) = Notice (''Validation failed for '' @ name g)"
proof -
  obtain g evs where g: "g \<in> set (content_files h pl)"
      "snd (validateFrontmatter h (path g)) = Return False"
      "fst (validate_files h (content_files h pl)) =
         evs @ [Notice (''Validation failed for '' @ name g)]"
    using validate_files_invalid_last[OF assms(2)] by blast
  obtain evs' where r: "validate_files h (content_files h pl) =
      (evs', Return (list_all (\<lambda>f. snd (validateFrontmatter h (path f)) = Return True)
         (content_files h pl)))"
    using validate_files_returns by blast
  with g(3) have "evs' = evs @ [Notice (''Validation failed for '' @ name g)]" by simp
  with r assms have "updateBlog h pl =
      Notice ''Updating blog...'' # evs @ [Notice (''Validation failed for '' @ name g)]"
    by (simp add: updateBlog_def update_try_def)
  then have "last (updateBlog h pl) = Notice (''Validation failed for '' @ name g)"
    by simp
  with g(1,2) show ?thesis by blast
qed

text \<open>
  Claim C9. A vault markdown file is selected for validation exactly when its path has
  the link's display name as a string prefix, so a file of a sibling folder whose name
  extends the link's name is selected too; when such a file fails validation the attempt
  makes no git call and, with the git client set, ends with the notice that validation
  failed for an invalid selected file.
\<close>

theorem prefix_selects_sibling_folders:
  "(f \<in> set (content_files h pl) \<longleftrightarrow>
      f \<in> set (getMarkdownFiles h) \<and> prefix (symlinkName (settings pl)) (path f)) \<and>
   (f \<in> set (getMarkdownFiles h) \<and> prefix (symlinkName (settings pl)) (path f) \<and>
    snd (validateFrontmatter h (path f)) = Return False \<longrightarrow>
      vcs_ops (updateBlog h pl) = [] \<and>
      (git pl \<noteq> None \<longrightarrow>
        (\<exists>g. g \<in> set (content_files h pl) \<and>
           snd (validateFrontmatter h (path g)) = Return False \<and>
           last (updateBlog h pl) = Notice (''Validation failed for '' @ name g))))"
proof (intro conjI impI)
  show "f \<in> set (content_files h pl) \<longleftrightarrow>
      f \<in> set (getMarkdownFiles h) \<and> prefix (symlinkName (settings pl)) (path f)"
    by (auto simp: content_files_def)
next
  assume a: "f \<in> set (getMarkdownFiles h) \<and> prefix (symlinkName (settings pl)) (path f) \<and>
    snd (validateFrontmatter h (path f)) = Return False"
  then have sel: "f \<in> set (content_files h pl)"
    by (simp add: content_files_def)
  with a show "vcs_ops (updateBlog h pl) = []"
    using updateBlog_invalid_no_vcs[of f h pl] by simp
  assume "git pl \<noteq> None"
  then obtain g0 where g0: "git pl = Some g0" by blast
  from a have "snd (validateFrontmatter h (path f)) \<noteq> Return True"
    by simp
  with sel
  have "\<not> list_all (\<lambda>f. snd (validateFrontmatter h (path f)) = Return True) (content_files h pl)"
    unfolding list_all_iff by blast
  from updateBlog_invalid_last[OF g0 this]
  show "\<exists>g. g \<in> set (content_files h pl) \<and>
           snd (validateFrontmatter h (path g)) = Return False \<and>
           last (updateBlog h pl) = Notice (''Validation failed for '' @ name g)" .
qed

theorem prefix_selects_sibling_folders_witness:
  "symlinkName (settings pub_plugin) = ''Blog'' \<and> path draft_md = ''Blog-drafts/x.md'' \<and>
   draft_md \<in> set (content_files ex_host pub_plugin) \<and>
   updateBlog ex_host pub_plugin =
     [Notice ''Updating blog...'', VaultRead ''Blog/hello.md'', VaultRead ''Blog-drafts/x.md'',
      Notice (''Validation failed:'' @ [CHR 0x0A] @ ''title: Required'' @ [CHR 0x0A] @
               ''description: Required''),
      Notice ''Validation failed for x.md''] \<and>
   vcs_ops (updateBlog ex_host pub_plugin) = []"
proof -
  have n: "symlinkName (settings pub_plugin) = ''Blog''" "path draft_md = ''Blog-drafts/x.md''"
    by (simp_all add: pub_plugin_def ex_plugin_def ex_settings_def draft_md_def)
  have hyp: "draft_md \<in> set (getMarkdownFiles ex_host) \<and>
      prefix (symlinkName (settings pub_plugin)) (path draft_md) \<and>
      snd (validateFrontmatter ex_host (path draft_md)) = Return False"
    by (simp add: n draft_invalid) (simp add: ex_host_def)
  from prefix_selects_sibling_folders[of draft_md ex_host pub_plugin] hyp
  have "draft_md \<in> set (content_files ex_host pub_plugin)"
      "vcs_ops (updateBlog ex_host pub_plugin) = []"
    by blast+
  with n updateBlog_ex_host show ?thesis by blast
qed



section \<open>The content validator\<close>

lemma object_issues_paths:
  "map issue_path (object_issues h shape data) =
     map (\<lambda>f. [fst f]) (filter (\<lambda>f. safe_parse h (snd f) (data (fst f)) \<noteq> None) shape)"
  by (induction shape) (auto simp: object_issues_def field_issues_def split: option.splits)

lemma validateFrontmatter_parsed:
  assumes "read h p = Inr content" and "matter h content = Inr data"
  shows "validateFrontmatter h p =
     (if object_issues h BlogSchema data = [] then ([VaultRead p], Return True)
      else ([VaultRead p,
             Notice (''Validation failed:'' @ [CHR 0x0A] @
                     join [CHR 0x0A] (map issue_line (object_issues h BlogSchema data)))],
            Return False))"
  using assms
  by (simp add: validateFrontmatter_def validate_try_def BlogSchema_parse_def validate_catch_def)

lemma required_missing_fails:
  "(case s of z_optional _ \<Rightarrow> False | _ \<Rightarrow> True) \<Longrightarrow> safe_parse h s None \<noteq> None"
  by (cases s) simp_all

lemma two_keys_filter:
  assumes "distinct ks" and "k1 \<in> set ks" and "k2 \<in> set ks" and "k1 \<noteq> k2"
  shows "length (filter (\<lambda>k. k = k1 \<or> k = k2) ks) = 2"
    and "set (filter (\<lambda>k. k = k1 \<or> k = k2) ks) = {k1, k2}"
proof -
  have "{k. k = k1 \<or> k = k2} \<inter> set ks = {k1, k2}"
    using assms(2,3) by blast
  then show "length (filter (\<lambda>k. k = k1 \<or> k = k2) ks) = 2"
    using assms(1,4) by (simp add: distinct_length_filter)
  show "set (filter (\<lambda>k. k = k1 \<or> k = k2) ks) = {k1, k2}"
    using assms(2,3) by auto
qed

lemma two_missing_required_shape:
  assumes d: "distinct (map fst shape)"
    and r1: "k1 \<in> set (required_fields shape)" and r2: "k2 \<in> set (required_fields shape)"
    and ne: "k1 \<noteq> k2" and m1: "data k1 = None" and m2: "data k2 = None"
    and ok: "\<forall>f \<in> set shape. fst f \<noteq> k1 \<and> fst f \<noteq> k2 \<longrightarrow>
           safe_parse h (snd f) (data (fst f)) = None"
  shows "length (object_issues h shape data) = 2 \<and>
     set (map issue_path (object_issues h shape data)) = {[k1], [k2]}"
proof -
  have req: "safe_parse h (snd f) (data (fst f)) \<noteq> None"
    if "f \<in> set shape" and "fst f = k1 \<or> fst f = k2" for f
  proof -
    from r1 r2 that(2) obtain g where g: "g \<in> set shape" "fst g = fst f"
        "case snd g of z_optional _ \<Rightarrow> False | _ \<Rightarrow> True"
      by (auto simp: required_fields_def)
    from d g(1,2) that(1) have "snd g = snd f"
      by (metis eq_key_imp_eq_value prod.collapse)
    with g(3) have "safe_parse h (snd f) None \<noteq> None"
      by (simp add: required_missing_fails)
    with that(2) m1 m2 show ?thesis by auto
  qed
  have "filter (\<lambda>f. safe_parse h (snd f) (data (fst f)) \<noteq> None) shape =
      filter (\<lambda>f. fst f = k1 \<or> fst f = k2) shape"
    using req ok by (intro filter_cong) auto
  then have paths: "map issue_path (object_issues h shape data) =
      map (\<lambda>k. [k]) (filter (\<lambda>k. k = k1 \<or> k = k2) (map fst shape))"
    by (simp add: object_issues_paths filter_map comp_def)
  from r1 r2 have mem: "k1 \<in> set (map fst shape)" "k2 \<in> set (map fst shape)"
    by (auto simp: required_fields_def)
  have "length (object_issues h shape data) = length (map issue_path (object_issues h shape data))"
    by simp
  also have "\<dots> = 2"
    unfolding paths using two_keys_filter(1)[OF d mem ne] by simp
  finally have len: "length (object_issues h shape data) = 2" .
  have "set (map issue_path (object_issues h shape data)) = (\<lambda>k. [k]) ` {k1, k2}"
    unfolding paths using two_keys_filter(2)[OF d mem ne] by simp
  with len show ?thesis by simp
qed

lemma BlogSchema_keys:
  "distinct (map fst BlogSchema)"
  "required_fields BlogSchema = [''title'', ''description'', ''pubDate'']"
  by (simp_all add: BlogSchema_def required_fields_def)


text \<open>
  Claim C6, as the code has it. The issues of one \<open>BlogSchema.parse\<close> are the failing
  fields of the schema, each once and in schema order; when the file reads and its front
  matter parses, the one call of \<open>validateFrontmatter\<close> shows them all in a single
  notice, a line per issue. An item whose only failing fields are two missing required
  fields yields exactly two issues, one for each of the two fields.
\<close>

theorem validate_reports_every_failing_field:
  "map issue_path (object_issues h BlogSchema data) =
     map (\<lambda>f. [fst f]) (filter (\<lambda>f. safe_parse h (snd f) (data (fst f)) \<noteq> None) BlogSchema) \<and>
   (read h p = Inr content \<and> matter h content = Inr data \<longrightarrow>
      validateFrontmatter h p =
        (if object_issues h BlogSchema data = [] then ([VaultRead p], Return True)
         else ([VaultRead p,
                Notice (''Validation failed:'' @ [CHR 0x0A] @
                        join [CHR 0x0A] (map issue_line (object_issues h BlogSchema data)))],
               Return False))) \<and>
   (k1 \<in> set (required_fields BlogSchema) \<and> k2 \<in> set (required_fields BlogSchema) \<and>
    k1 \<noteq> k2 \<and> data k1 = None \<and> data k2 = None \<and>
    (\<forall>f \<in> set BlogSchema. fst f \<noteq> k1 \<and> fst f \<noteq> k2 \<longrightarrow>
       safe_parse h (snd f) (data (fst f)) = None) \<longrightarrow>
      length (object_issues h BlogSchema data) = 2 \<and>
      set (map issue_path (object_issues h BlogSchema data)) = {[k1], [k2]})"
proof (intro conjI impI)
  show "map issue_path (object_issues h BlogSchema data) =
     map (\<lambda>f. [fst f]) (filter (\<lambda>f. safe_parse h (snd f) (data (fst f)) \<noteq> None) BlogSchema)"
    by (rule object_issues_paths)
next
  assume "read h p = Inr content \<and> matter h content = Inr data"
  then show "validateFrontmatter h p =
        (if object_issues h BlogSchema data = [] then ([VaultRead p], Return True)
         else ([VaultRead p,
                Notice (''Validation failed:'' @ [CHR 0x0A] @
                        join [CHR 0x0A] (map issue_line (object_issues h BlogSchema data)))],
               Return False))"
    using validateFrontmatter_parsed[of h p content data] by blast
next
  assume a: "k1 \<in> set (required_fields BlogSchema) \<and> k2 \<in> set (required_fields BlogSchema) \<and>
    k1 \<noteq> k2 \<and> data k1 = None \<and> data k2 = None \<and>
    (\<forall>f \<in> set BlogSchema. fst f \<noteq> k1 \<and> fst f \<noteq> k2 \<longrightarrow>
       safe_parse h (snd f) (data (fst f)) = None)"
  then have "length (object_issues h BlogSchema data) = 2 \<and>
      set (map issue_path (object_issues h BlogSchema data)) = {[k1], [k2]}"
    using two_missing_required_shape[of BlogSchema k1 k2 data h] BlogSchema_keys(1) by blast
  then show "length (object_issues h BlogSchema data) = 2"
    and "set (map issue_path (object_issues h BlogSchema data)) = {[k1], [k2]}"
    by blast+
qed

theorem validate_reports_every_failing_field_witness:
  "required_fields BlogSchema = [''title'', ''description'', ''pubDate''] \<and>
   draft_data ''title'' = None \<and> draft_data ''description'' = None \<and>
   length (object_issues ex_host BlogSchema draft_data) = 2 \<and>
   set (map issue_path (object_issues ex_host BlogSchema draft_data)) =
     {[''title''], [''description'']} \<and>
   validateFrontmatter ex_host ''Blog-drafts/x.md'' =
     ([VaultRead ''Blog-drafts/x.md'',
       Notice (''Validation failed:'' @ [CHR 0x0A] @ ''title: Required'' @ [CHR 0x0A] @
               ''description: Required'')],
      Return False)"
proof -
  have m: "draft_data ''title'' = None" "draft_data ''description'' = None"
    by (simp_all add: draft_data_def)
  have r: "''title'' \<in> set (required_fields BlogSchema)"
      "''description'' \<in> set (required_fields BlogSchema)"
    by (simp_all add: BlogSchema_keys(2))
  have ok: "\<forall>f \<in> set BlogSchema. fst f \<noteq> ''title'' \<and> fst f \<noteq> ''description'' \<longrightarrow>
       safe_parse ex_host (snd f) (draft_data (fst f)) = None"
    by (simp add: BlogSchema_def draft_data_def ex_host_def)
  have ne: "''title'' \<noteq> ''description''" by simp
  from validate_reports_every_failing_field
      [of ex_host draft_data "''Blog-drafts/x.md''" "''draft''" "''title''" "''description''"]
    m r ok ne
  have "length (object_issues ex_host BlogSchema draft_data) = 2 \<and>
      set (map issue_path (object_issues ex_host BlogSchema draft_data)) =
        {[''title''], [''description'']}"
    by blast
  with m BlogSchema_keys(2) draft_invalid show ?thesis by blast
qed

text \<open>
  C6 as stated fails for an item that misses exactly two required fields and has a
  third field present but invalid: the call reports three failures.
\<close>

theorem validate_two_missing_counterexample:
  "bad_data ''title'' = None \<and> bad_data ''description'' = None \<and>
   bad_data ''pubDate'' = Some (JString ''not a date'') \<and>
   length (object_issues bad_host BlogSchema bad_data) = 3 \<and>
   validateFrontmatter bad_host ''Blog/bad.md'' =
     ([VaultRead ''Blog/bad.md'',
       Notice (''Validation failed:'' @ [CHR 0x0A] @ ''title: Required'' @ [CHR 0x0A] @
               ''description: Required'' @ [CHR 0x0A] @ ''pubDate: Invalid date'')],
      Return False)"
  by (simp add: validateFrontmatter_def validate_try_def validate_catch_def BlogSchema_parse_def
      object_issues_def field_issues_def BlogSchema_def issue_line_def
      bad_host_def bad_data_def ex_host_def)

text \<open>
  Claim C10. \<open>validateFrontmatter\<close> always returns a boolean and never throws: it
  returns true exactly when its \<open>try\<close> block completes, and false when the read, the
  frontmatter parser or the schema throws.
\<close>

theorem validateFrontmatter_total:
  "(\<exists>evs b. validateFrontmatter h p = (evs, Return b)) \<and>
   (snd (validateFrontmatter h p) = Return True \<longleftrightarrow> snd (validate_try h p) = Return ()) \<and>
   (snd (validate_try h p) = Throw e \<longrightarrow> snd (validateFrontmatter h p) = Return False) \<and>
   (read h p = Inl e \<longrightarrow> snd (validateFrontmatter h p) = Return False) \<and>
   (read h p = Inr content \<and> matter h content = Inl e \<longrightarrow>
      snd (validateFrontmatter h p) = Return False) \<and>
   (read h p = Inr content \<and> matter h content = Inr data \<and> BlogSchema_parse h data = Inl e \<longrightarrow>
      snd (validateFrontmatter h p) = Return False)"
proof -
  obtain c where c: "validate_try h p = ([VaultRead p], c)"
    using validate_try_cases by blast
  have 1: "\<exists>evs b. validateFrontmatter h p = (evs, Return b)"
    using validateFrontmatter_returns by blast
  have 2: "snd (validateFrontmatter h p) = Return True \<longleftrightarrow> snd (validate_try h p) = Return ()"
    by (cases c) (simp_all add: validateFrontmatter_def c)
  have 3: "snd (validate_try h p) = Throw e \<longrightarrow> snd (validateFrontmatter h p) = Return False"
    by (cases c) (simp_all add: validateFrontmatter_def c)
  have 4: "read h p = Inl e \<longrightarrow> snd (validateFrontmatter h p) = Return False"
    by (simp add: validateFrontmatter_def validate_try_def)
  have 5: "read h p = Inr content \<and> matter h content = Inl e \<longrightarrow>
      snd (validateFrontmatter h p) = Return False"
    by (simp add: validateFrontmatter_def validate_try_def)
  have 6: "read h p = Inr content \<and> matter h content = Inr data \<and> BlogSchema_parse h data = Inl e \<longrightarrow>
      snd (validateFrontmatter h p) = Return False"
    by (simp add: validateFrontmatter_def validate_try_def)
  from 1 2 3 4 5 6 show ?thesis by blast
qed

theorem validateFrontmatter_total_witness:
  "read ex_host ''notes/gone.md'' = Inl (Error ''ENOENT'') \<and>
   snd (validateFrontmatter ex_host ''notes/gone.md'') = Return False \<and>
   read ex_host ''Blog/broken.md'' = Inr ''broken'' \<and>
   matter ex_host ''broken'' = Inl (Error ''YAMLException'') \<and>
   snd (validateFrontmatter ex_host ''Blog/broken.md'') = Return False"
proof -
  have a: "read ex_host ''notes/gone.md'' = Inl (Error ''ENOENT'')"
    by (simp add: ex_host_def)
  have b: "read ex_host ''Blog/broken.md'' = Inr ''broken''"
      "matter ex_host ''broken'' = Inl (Error ''YAMLException'')"
    by (simp_all add: ex_host_def)
  from validateFrontmatter_total[of ex_host "''notes/gone.md''" "Error ''ENOENT''"] a
  have c: "snd (validateFrontmatter ex_host ''notes/gone.md'') = Return False"
    by blast
  from validateFrontmatter_total
      [of ex_host "''Blog/broken.md''" "Error ''YAMLException''" "''broken''"] b
  have d: "snd (validateFrontmatter ex_host ''Blog/broken.md'') = Return False"
    by blast
  from a b c d show ?thesis by blast
qed


end
